theory Spec2Isabelle
  imports Complex_Main "HOL-Library.AList"
begin

section \<open>PolygonMask options\<close>

text \<open>
  The option class of \<^verbatim>\<open>Plugins/PolygonMask/Options/Classes/PolygonMask.ts\<close>.
  JavaScript's \<^verbatim>\<open>undefined\<close> is \<open>None\<close>. The enum \<^verbatim>\<open>Type\<close> is declared in
  \<^verbatim>\<open>Enums\<close>, which is not among the sources: the model keeps the member the code names,
  \<^verbatim>\<open>Type.none\<close>, and carries every other member by its name.
\<close>

datatype Type = none | other string

text \<open>
  Modelled from the spec: \<^verbatim>\<open>Inline\<close> and its \<^verbatim>\<open>load\<close> (\<^verbatim>\<open>Inline.ts\<close> is not among the
  sources). The spec names the field \<^verbatim>\<open>inline.arrangement\<close> and gives the contract of every
  \<^verbatim>\<open>load\<close>: an undefined input changes nothing, and a scalar field is overwritten only when
  the incoming value is not undefined. An arrangement is carried by its name.
\<close>

record Inline =
  arrangement :: string

record IInline =
  arrangement_opt :: "string option"

definition Inline_load :: "IInline option \<Rightarrow> Inline \<Rightarrow> Inline" where
  "Inline_load data this =
     (case data of
        None \<Rightarrow> this
      | Some d \<Rightarrow>
          (case arrangement_opt d of
             None \<Rightarrow> this
           | Some a \<Rightarrow> this\<lparr>arrangement := a\<rparr>))"

text \<open>
  \<^verbatim>\<open>Draw\<close>, \<^verbatim>\<open>Move\<close>, \<^verbatim>\<open>LocalSvg\<close>, \<^verbatim>\<open>ICoordinates\<close> and \<^verbatim>\<open>deepExtend\<close> are not among
  the sources either, and the spec says nothing of their fields. Their objects are values
  of one type \<open>'o\<close> of JavaScript objects, and what their loaders do is a parameter of
  \<open>load\<close>:
  \<^item> \<open>Draw_load d this\<close> is the \<^verbatim>\<open>Draw\<close> object after \<^verbatim>\<open>this.draw.load(d)\<close>,
  \<^item> \<open>Move_load d this\<close> is the \<^verbatim>\<open>Move\<close> object after \<^verbatim>\<open>this.move.load(d)\<close>,
  \<^item> \<open>LocalSvg_load d\<close> is a \<^verbatim>\<open>new LocalSvg()\<close> after its \<^verbatim>\<open>load(d)\<close>,
  \<^item> \<open>deepExtend d\<close> is \<^verbatim>\<open>deepExtend({}, d)\<close>.
\<close>

record 'o loaders =
  Draw_load :: "'o option \<Rightarrow> 'o \<Rightarrow> 'o"
  Move_load :: "'o option \<Rightarrow> 'o \<Rightarrow> 'o"
  LocalSvg_load :: "'o \<Rightarrow> 'o"
  deepExtend :: "'o \<Rightarrow> 'o"

text \<open>The fields of the class, in the order of their declaration.\<close>

record 'o PolygonMask =
  draw :: 'o
  enable :: bool
  inline :: Inline
  move :: 'o
  position :: "'o option"
  scale :: rat
  type :: Type
  url :: "string option"
  data :: "(string + 'o) option"

text \<open>
  The argument of \<^verbatim>\<open>load\<close>, a \<^verbatim>\<open>RecursivePartial<IPolygonMask>\<close>: every field may be
  undefined, the deprecated \<^verbatim>\<open>inlineArrangement\<close> included.
\<close>

record 'o IPolygonMask =
  data_draw :: "'o option"
  data_enable :: "bool option"
  data_inline :: "IInline option"
  data_inlineArrangement :: "string option"
  data_move :: "'o option"
  data_position :: "'o option"
  data_scale :: "rat option"
  data_type :: "Type option"
  data_url :: "string option"
  data_data :: "(string + 'o) option"

text \<open>
  \<^verbatim>\<open>load(data)\<close>, statement by statement. \<^verbatim>\<open>data.inline ?? {arrangement: data.inlineArrangement}\<close>
  is never undefined, so the test \<^verbatim>\<open>inline !== undefined\<close> that follows always passes; the
  model keeps the test.
\<close>

definition load :: "'o loaders \<Rightarrow> 'o IPolygonMask option \<Rightarrow> 'o PolygonMask \<Rightarrow> 'o PolygonMask" where
  "load x data_arg this =
     (case data_arg of
        None \<Rightarrow> this
      | Some d \<Rightarrow>
          (let s1 = this\<lparr>draw := Draw_load x (data_draw d) (draw this)\<rparr>;
               inline_arg =
                 (case data_inline d of
                    Some i \<Rightarrow> Some i
                  | None \<Rightarrow> Some \<lparr>arrangement_opt = data_inlineArrangement d\<rparr>);
               s2 = (case inline_arg of
                       Some i \<Rightarrow> s1\<lparr>inline := Inline_load (Some i) (inline s1)\<rparr>
                     | None \<Rightarrow> s1);
               s3 = s2\<lparr>move := Move_load x (data_move d) (move s2)\<rparr>;
               s4 = (case data_scale d of Some v \<Rightarrow> s3\<lparr>scale := v\<rparr> | None \<Rightarrow> s3);
               s5 = (case data_type d of Some t \<Rightarrow> s4\<lparr>type := t\<rparr> | None \<Rightarrow> s4);
               s6 = (case data_enable d of
                       Some b \<Rightarrow> s5\<lparr>enable := b\<rparr>
                     | None \<Rightarrow> s5\<lparr>enable := (type s5 \<noteq> none)\<rparr>);
               s7 = (case data_url d of Some u \<Rightarrow> s6\<lparr>url := Some u\<rparr> | None \<Rightarrow> s6);
               s8 = (case data_data d of
                       None \<Rightarrow> s7
                     | Some (Inl str) \<Rightarrow> s7\<lparr>data := Some (Inl str)\<rparr>
                     | Some (Inr svg) \<Rightarrow> s7\<lparr>data := Some (Inr (LocalSvg_load x svg))\<rparr>);
               s9 = (case data_position d of
                       Some p \<Rightarrow> s8\<lparr>position := Some (deepExtend x p)\<rparr>
                     | None \<Rightarrow> s8)
           in s9))"

text \<open>
  The object built by the constructor, for loaders over a one-object type, and the input
  \<^verbatim>\<open>{}\<close>. The constructor's \<^verbatim>\<open>new Inline()\<close> is made of an arrangement whose default the
  sources do not give; the examples below name it.
\<close>

definition unit_loaders :: "unit loaders" where
  "unit_loaders =
     \<lparr>Draw_load = (\<lambda>d this. this), Move_load = (\<lambda>d this. this),
      LocalSvg_load = (\<lambda>d. d), deepExtend = (\<lambda>d. d)\<rparr>"

definition PolygonMask_new :: "string \<Rightarrow> unit PolygonMask" where
  "PolygonMask_new a =
     \<lparr>draw = (), enable = False, inline = \<lparr>arrangement = a\<rparr>, move = (),
      position = None, scale = 1, type = none, url = None, data = None\<rparr>"

definition empty_data :: "unit IPolygonMask" where
  "empty_data =
     \<lparr>data_draw = None, data_enable = None, data_inline = None,
      data_inlineArrangement = None, data_move = None, data_position = None,
      data_scale = None, data_type = None, data_url = None, data_data = None\<rparr>"

section \<open>JavaScript numbers\<close>

text \<open>
  A JavaScript number is a finite value, one of the two infinities, or \<^verbatim>\<open>NaN\<close>. The finite
  values are taken as exact rationals: the rounding of IEEE doubles, their overflow and the
  sign of zero are left out, so a zero divisor divides as \<^verbatim>\<open>+0\<close> does. What is kept is what
  separates JavaScript's arithmetic from HOL's: a division by zero is an infinity or
  \<^verbatim>\<open>NaN\<close>, and every comparison with \<^verbatim>\<open>NaN\<close> is false.
\<close>

datatype number = Num rat | PosInfinity | NegInfinity | NaN

fun js_neg :: "number \<Rightarrow> number" where
  "js_neg (Num a) = Num (- a)"
| "js_neg PosInfinity = NegInfinity"
| "js_neg NegInfinity = PosInfinity"
| "js_neg NaN = NaN"

fun js_mul :: "number \<Rightarrow> number \<Rightarrow> number" where
  "js_mul (Num a) (Num b) = Num (a * b)"
| "js_mul NaN y = NaN"
| "js_mul x NaN = NaN"
| "js_mul (Num a) y = (if a = 0 then NaN else if 0 < a then y else js_neg y)"
| "js_mul x (Num b) = (if b = 0 then NaN else if 0 < b then x else js_neg x)"
| "js_mul PosInfinity y = y"
| "js_mul NegInfinity y = js_neg y"

fun js_div :: "number \<Rightarrow> number \<Rightarrow> number" where
  "js_div (Num a) (Num b) =
     (if b \<noteq> 0 then Num (a / b)
      else if a = 0 then NaN
      else if 0 < a then PosInfinity else NegInfinity)"
| "js_div NaN y = NaN"
| "js_div x NaN = NaN"
| "js_div (Num a) y = Num 0"
| "js_div x (Num b) = (if 0 \<le> b then x else js_neg x)"
| "js_div x y = NaN"

fun js_sub :: "number \<Rightarrow> number \<Rightarrow> number" where
  "js_sub (Num a) (Num b) = Num (a - b)"
| "js_sub NaN y = NaN"
| "js_sub x NaN = NaN"
| "js_sub (Num a) y = js_neg y"
| "js_sub x (Num b) = x"
| "js_sub PosInfinity NegInfinity = PosInfinity"
| "js_sub NegInfinity PosInfinity = NegInfinity"
| "js_sub x y = NaN"

fun js_less :: "number \<Rightarrow> number \<Rightarrow> bool" where
  "js_less (Num a) (Num b) = (a < b)"
| "js_less NaN y = False"
| "js_less x NaN = False"
| "js_less x PosInfinity = (x \<noteq> PosInfinity)"
| "js_less NegInfinity y = (y \<noteq> NegInfinity)"
| "js_less x y = False"

fun js_abs :: "number \<Rightarrow> number" where
  "js_abs (Num a) = Num \<bar>a\<bar>"
| "js_abs NaN = NaN"
| "js_abs x = PosInfinity"

section \<open>The Container and what it talks to\<close>

datatype error = TypeError

text \<open>
  How a call ends: it returns, or it throws. \<open>Unspecified\<close> is the third end, of a call
  into a collaborator modelled from the spec on an argument for which the spec fixes no
  result.
\<close>

datatype outcome = Returned | Threw error | Unspecified

text \<open>
  A plugin and a shape drawer are sets of optional methods; the Container tests the
  presence of a method before it calls it. The model keeps a name and the presence of
  each method the Container looks at.
\<close>

record Plugin =
  plugin_name :: string
  has_init :: bool
  has_start :: bool
  has_startAsync :: bool
  has_stop :: bool
  has_pause :: bool
  has_play :: bool

record ShapeDrawer =
  drawer_has_init :: bool
  drawer_has_destroy :: bool

text \<open>
  Every call the Container makes into another object is written to a trace, in order, with
  its argument. Plugin and drawer methods are taken to return normally and to leave the
  Container's own fields alone.
\<close>

datatype call =
    call_Plugin_init Plugin
  | call_Plugin_start Plugin
  | call_Plugin_startAsync Plugin
  | call_Plugin_stop Plugin
  | call_Plugin_pause Plugin
  | call_Plugin_play Plugin
  | call_Drawer_init string
  | call_Drawer_destroy string
  | call_addListeners
  | call_removeListeners
  | call_Retina_init
  | call_Retina_reset
  | call_Canvas_init
  | call_Canvas_clear
  | call_Canvas_destroy
  | call_Particles_init
  | call_Particles_clear
  | call_Particles_push number
  | call_Particles_removeQuantity number

text \<open>
  Of the subordinate objects, the model keeps the fields that \<^verbatim>\<open>Container.ts\<close> reads:
  \<^verbatim>\<open>retina.isRetina\<close> and \<^verbatim>\<open>retina.pixelRatio\<close>, \<^verbatim>\<open>canvas.element\<close> with its width and
  height (unsigned integers of the DOM), \<^verbatim>\<open>particles.count\<close> and
  \<^verbatim>\<open>particles.lineLinkedColor\<close>, and of the options
  \<^verbatim>\<open>particles.number.value\<close>, \<^verbatim>\<open>particles.number.density.enable\<close>,
  \<^verbatim>\<open>particles.number.density.area\<close> and \<^verbatim>\<open>particles.shape.type\<close>, a string or an array
  of strings.
\<close>

record Retina =
  isRetina :: bool
  pixelRatio :: rat

record Element =
  width :: nat
  height :: nat

record Canvas =
  element :: "Element option"

record Particles =
  count :: nat
  lineLinkedColor :: "string option"

datatype ShapeType = Single string | Multiple "string list"

record Options =
  particles_number_value :: rat
  particles_number_density_enable :: bool
  particles_number_density_area :: rat
  particles_shape_type :: ShapeType

text \<open>
  The fields of the class. A field that \<^verbatim>\<open>destroy()\<close> deletes is an option, \<open>None\<close> once
  deleted; \<^verbatim>\<open>interactivity\<close>, \<^verbatim>\<open>bubble\<close>, \<^verbatim>\<open>repulse\<close>, \<^verbatim>\<open>drawer\<close> and
  \<^verbatim>\<open>eventListeners\<close> are never read field by field, so only their presence is kept.
  \<^verbatim>\<open>drawers\<close> is an object used as a dictionary and walked by \<^verbatim>\<open>for ... in\<close>: an
  association list in insertion order.

  The last four fields are not fields of the class. They are the part of the browser the
  Container acts on: the handles of the animation-frame requests that are outstanding, the
  handle the next request will get, the value \<^verbatim>\<open>performance.now()\<close> returns, and the trace
  of calls.
\<close>

record Container =
  container_id :: string
  interactivity :: "unit option"
  options :: "Options option"
  retina :: "Retina option"
  canvas :: "Canvas option"
  drawers :: "(string \<times> ShapeDrawer) list"
  particles :: "Particles option"
  plugins :: "Plugin list"
  bubble :: "unit option"
  repulse :: "unit option"
  lastFrameTime :: rat
  pageHidden :: bool
  drawer :: "unit option"
  started :: bool
  destroyed :: bool
  paused :: bool
  drawAnimationFrame :: "nat option"
  eventListeners :: "unit option"
  animationFrames :: "nat list"
  nextHandle :: nat
  performance_now :: rat
  trace :: "call list"

text \<open>
  What the collaborators outside \<^verbatim>\<open>Container.ts\<close> do to the fields above is a parameter
  of the model: the plugins \<^verbatim>\<open>Plugins.getAvailablePlugins(this)\<close> returns, the drawer
  \<^verbatim>\<open>CanvasUtils.getShapeDrawer(type)\<close> returns, and the retina, canvas and particles
  objects as \<^verbatim>\<open>Retina.init\<close>, \<^verbatim>\<open>Retina.reset\<close>, \<^verbatim>\<open>Canvas.init\<close>, \<^verbatim>\<open>Canvas.clear\<close> and
  \<^verbatim>\<open>Particles.init\<close> leave them, each given the Container they were built with.
\<close>

record collaborators =
  getAvailablePlugins :: "Container \<Rightarrow> Plugin list"
  getShapeDrawer :: "string \<Rightarrow> ShapeDrawer"
  Retina_init :: "Container \<Rightarrow> Retina \<Rightarrow> Retina"
  Retina_reset :: "Container \<Rightarrow> Retina \<Rightarrow> Retina"
  Canvas_init :: "Container \<Rightarrow> Canvas \<Rightarrow> Canvas"
  Canvas_clear :: "Container \<Rightarrow> Canvas \<Rightarrow> Canvas"
  Particles_init :: "Container \<Rightarrow> Particles \<Rightarrow> Particles"

subsection \<open>The particle collection\<close>

text \<open>
  Modelled from the spec: \<^verbatim>\<open>Particles.push\<close>, \<^verbatim>\<open>Particles.removeQuantity\<close> and
  \<^verbatim>\<open>Particles.clear\<close> (\<^verbatim>\<open>Particles.ts\<close> is not among the sources). The spec: \<^verbatim>\<open>count\<close> is
  the length of the collection; \<^verbatim>\<open>push(quantity)\<close> creates \<^verbatim>\<open>quantity\<close> new particles;
  \<^verbatim>\<open>removeQuantity(quantity)\<close> removes up to \<^verbatim>\<open>quantity\<close> particles, never more than
  \<^verbatim>\<open>quantity\<close> and never below zero; \<^verbatim>\<open>clear\<close> empties the collection.

  The collection holds whole particles. For \<^verbatim>\<open>push\<close> of a quantity that is not a whole
  number, is negative or is not finite, the spec fixes no result, and the model returns
  \<open>None\<close>. \<^verbatim>\<open>removeQuantity\<close> removes the whole particles the quantity allows: its integer
  part, all of them for \<^verbatim>\<open>Infinity\<close>; the spec fixes no result for a negative quantity or
  \<^verbatim>\<open>NaN\<close>.
\<close>

definition Particles_push :: "number \<Rightarrow> Particles \<Rightarrow> Particles option" where
  "Particles_push quantity this =
     (case quantity of
        Num q \<Rightarrow>
          (if 0 \<le> q \<and> of_int \<lfloor>q\<rfloor> = q
           then Some (this\<lparr>count := count this + nat \<lfloor>q\<rfloor>\<rparr>)
           else None)
      | _ \<Rightarrow> None)"

definition Particles_removeQuantity :: "number \<Rightarrow> Particles \<Rightarrow> Particles option" where
  "Particles_removeQuantity quantity this =
     (case quantity of
        Num q \<Rightarrow>
          (if 0 \<le> q
           then Some (this\<lparr>count := count this - min (nat \<lfloor>q\<rfloor>) (count this)\<rparr>)
           else None)
      | PosInfinity \<Rightarrow> Some (this\<lparr>count := 0\<rparr>)
      | _ \<Rightarrow> None)"

definition Particles_clear :: "Particles \<Rightarrow> Particles" where
  "Particles_clear this = this\<lparr>count := 0\<rparr>"

subsection \<open>The window\<close>

text \<open>
  \<^verbatim>\<open>Container.requestFrame\<close> hands the callback to the window, which registers one more
  request and returns its handle, a fresh one each time; \<^verbatim>\<open>Container.cancelAnimation\<close>
  withdraws the request with the given handle. A request stays outstanding until it is
  cancelled or fires; no callback fires while a method of the Container runs.
\<close>

definition requestFrame :: "Container \<Rightarrow> nat \<times> Container" where
  "requestFrame s =
     (nextHandle s,
      s\<lparr>animationFrames := animationFrames s @ [nextHandle s],
        nextHandle := nextHandle s + 1\<rparr>)"

definition cancelAnimation :: "nat \<Rightarrow> Container \<Rightarrow> Container" where
  "cancelAnimation handle s = s\<lparr>animationFrames := removeAll handle (animationFrames s)\<rparr>"

subsection \<open>Helpers of the model\<close>

definition called :: "call \<Rightarrow> Container \<Rightarrow> Container" where
  "called c s = s\<lparr>trace := trace s @ [c]\<rparr>"

text \<open>
  \<^verbatim>\<open>for (const plugin of this.plugins) if (plugin.m) plugin.m()\<close>: the plugins in the
  order of the list, each called when it has the method.
\<close>

definition forPlugins :: "(Plugin \<Rightarrow> bool) \<Rightarrow> (Plugin \<Rightarrow> call) \<Rightarrow> Container \<Rightarrow> Container" where
  "forPlugins has c s = fold (\<lambda>p t. if has p then called (c p) t else t) (plugins s) s"

text \<open>
  \<^verbatim>\<open>for (const type in this.drawers)\<close> with a call of the drawer's method when it is
  defined.
\<close>

definition forDrawers :: "(ShapeDrawer \<Rightarrow> bool) \<Rightarrow> (string \<Rightarrow> call) \<Rightarrow> Container \<Rightarrow> Container" where
  "forDrawers has c s =
     fold (\<lambda>(ty, d) t. if has d then called (c ty) t else t) (drawers s) s"

text \<open>Sequencing: what follows a call runs only when the call returned.\<close>

definition andThen ::
  "Container \<times> outcome \<Rightarrow> (Container \<Rightarrow> Container \<times> outcome) \<Rightarrow> Container \<times> outcome" where
  "andThen r f = (case snd r of Returned \<Rightarrow> f (fst r) | _ \<Rightarrow> r)"

text \<open>
  A method call on a field: a \<^verbatim>\<open>TypeError\<close> when the field has been deleted, since
  \<^verbatim>\<open>undefined\<close> has no properties.
\<close>

definition onField ::
  "'a option \<Rightarrow> Container \<Rightarrow> ('a \<Rightarrow> Container \<times> outcome) \<Rightarrow> Container \<times> outcome" where
  "onField field s f = (case field of None \<Rightarrow> (s, Threw TypeError) | Some v \<Rightarrow> f v)"

subsection \<open>The methods\<close>

text \<open>
  \<^verbatim>\<open>play(force?)\<close>. \<^verbatim>\<open>this.paused || force\<close> is truthy when the Container is paused or
  \<^verbatim>\<open>force\<close> is \<^verbatim>\<open>true\<close>. The callback given to \<^verbatim>\<open>requestFrame\<close> reads \<^verbatim>\<open>this.drawer\<close> only
  when it fires, so \<^verbatim>\<open>play\<close> itself never throws.
\<close>

definition play :: "bool option \<Rightarrow> Container \<Rightarrow> Container" where
  "play force s =
     (let needsUpdate = (paused s \<or> force = Some True);
          s1 = (if paused s then s\<lparr>paused := False\<rparr> else s);
          s2 = (if needsUpdate
                then (let s' = forPlugins has_play call_Plugin_play s1
                      in s'\<lparr>lastFrameTime := performance_now s'\<rparr>)
                else s1);
          (handle, s3) = requestFrame s2
      in s3\<lparr>drawAnimationFrame := Some handle\<rparr>)"

definition pause :: "Container \<Rightarrow> Container" where
  "pause s =
     (let s1 = (case drawAnimationFrame s of
                  Some handle \<Rightarrow> (cancelAnimation handle s)\<lparr>drawAnimationFrame := None\<rparr>
                | None \<Rightarrow> s)
      in if \<not> paused s1
         then (let s2 = forPlugins has_pause call_Plugin_pause s1
               in if \<not> pageHidden s2 then s2\<lparr>paused := True\<rparr> else s2)
         else s1)"

definition getAnimationStatus :: "Container \<Rightarrow> bool" where
  "getAnimationStatus s = (\<not> paused s)"

text \<open>
  \<^verbatim>\<open>densityAutoParticles()\<close>. \<open>particlesNumber\<close> is the target the method computes from
  the element, the retina and the options; \<^verbatim>\<open>a * b / c\<close> is \<^verbatim>\<open>(a * b) / c\<close>.
\<close>

definition particlesNumber :: "Element \<Rightarrow> Retina \<Rightarrow> Options \<Rightarrow> number" where
  "particlesNumber e r opts =
     (let area = js_div (js_mul (Num (of_nat (width e))) (Num (of_nat (height e)))) (Num 1000);
          area' = (if isRetina r then js_div area (js_mul (Num (pixelRatio r)) (Num 2)) else area);
          optParticlesNumber = Num (particles_number_value opts);
          density = Num (particles_number_density_area opts)
      in js_div (js_mul area' optParticlesNumber) density)"

definition push :: "number \<Rightarrow> Container \<Rightarrow> Container \<times> outcome" where
  "push quantity s =
     onField (particles s) s (\<lambda>p.
       (case Particles_push quantity p of
          None \<Rightarrow> (called (call_Particles_push quantity) s, Unspecified)
        | Some p' \<Rightarrow> ((called (call_Particles_push quantity) s)\<lparr>particles := Some p'\<rparr>, Returned)))"

definition removeQuantity :: "number \<Rightarrow> Container \<Rightarrow> Container \<times> outcome" where
  "removeQuantity quantity s =
     onField (particles s) s (\<lambda>p.
       (case Particles_removeQuantity quantity p of
          None \<Rightarrow> (called (call_Particles_removeQuantity quantity) s, Unspecified)
        | Some p' \<Rightarrow>
            ((called (call_Particles_removeQuantity quantity) s)\<lparr>particles := Some p'\<rparr>, Returned)))"

definition densityAutoParticles :: "Container \<Rightarrow> Container \<times> outcome" where
  "densityAutoParticles s =
     onField (canvas s) s (\<lambda>c.
       (case element c of
          None \<Rightarrow> (s, Returned)
        | Some e \<Rightarrow>
            onField (options s) s (\<lambda>opts.
              if \<not> particles_number_density_enable opts then (s, Returned)
              else
                onField (retina s) s (\<lambda>r.
                  onField (particles s) s (\<lambda>p.
                    (let target = particlesNumber e r opts;
                         particlesCount = Num (of_nat (count p))
                     in if js_less particlesCount target
                        then push (js_abs (js_sub target particlesCount)) s
                        else if js_less target particlesCount
                        then removeQuantity (js_sub particlesCount target) s
                        else (s, Returned)))))))"

text \<open>\<^verbatim>\<open>stop()\<close>.\<close>

definition stop :: "collaborators \<Rightarrow> Container \<Rightarrow> Container \<times> outcome" where
  "stop x s =
     (if \<not> started s then (s, Returned)
      else
        (let s1 = s\<lparr>started := False\<rparr>
         in onField (eventListeners s1) s1 (\<lambda>_.
              (let s2 = called call_removeListeners s1;
                   s3 = pause s2
               in onField (particles s3) s3 (\<lambda>p.
                    (let s4 = (called call_Particles_clear s3)\<lparr>particles := Some (Particles_clear p)\<rparr>
                     in onField (retina s4) s4 (\<lambda>r.
                          (let s5 = (called call_Retina_reset s4)\<lparr>retina := Some (Retina_reset x s4 r)\<rparr>
                           in onField (canvas s5) s5 (\<lambda>c.
                                (let s6 = (called call_Canvas_clear s5)\<lparr>canvas := Some (Canvas_clear x s5 c)\<rparr>;
                                     s7 = forPlugins has_stop call_Plugin_stop s6;
                                     s8 = s7\<lparr>plugins := []\<rparr>
                                 in onField (particles s8) s8 (\<lambda>p'.
                                      (s8\<lparr>particles := Some (p'\<lparr>lineLinkedColor := None\<rparr>)\<rparr>,
                                       Returned))))))))))))"

text \<open>\<^verbatim>\<open>destroy()\<close>.\<close>

definition destroy :: "collaborators \<Rightarrow> Container \<Rightarrow> Container \<times> outcome" where
  "destroy x s =
     andThen (stop x s) (\<lambda>s1.
       onField (retina s1) s1 (\<lambda>r.
         (let s2 = (called call_Retina_reset s1)\<lparr>retina := Some (Retina_reset x s1 r)\<rparr>
          in onField (canvas s2) s2 (\<lambda>c.
               (let s3 = called call_Canvas_destroy s2;
                    s4 = s3\<lparr>interactivity := None, options := None, retina := None,
                            canvas := None, particles := None, bubble := None,
                            repulse := None, drawer := None, eventListeners := None\<rparr>;
                    s5 = forDrawers drawer_has_destroy call_Drawer_destroy s4;
                    s6 = s5\<lparr>drawers := []\<rparr>
                in (s6\<lparr>destroyed := True\<rparr>, Returned))))))"

text \<open>
  The private \<^verbatim>\<open>init()\<close>, and \<^verbatim>\<open>start()\<close>. \<^verbatim>\<open>start\<close> is asynchronous: it awaits each
  \<^verbatim>\<open>startAsync\<close> and each drawer's \<^verbatim>\<open>init\<close> in turn. The model runs it as one sequence, no
  other call in between, and a throw inside it is the rejection of the promise it returns.
\<close>

definition init :: "collaborators \<Rightarrow> Container \<Rightarrow> Container \<times> outcome" where
  "init x s =
     onField (retina s) s (\<lambda>r.
       (let s1 = (called call_Retina_init s)\<lparr>retina := Some (Retina_init x s r)\<rparr>
        in onField (canvas s1) s1 (\<lambda>c.
             (let s2 = (called call_Canvas_init s1)\<lparr>canvas := Some (Canvas_init x s1 c)\<rparr>
              in onField (particles s2) s2 (\<lambda>p.
                   (let s3 = (called call_Particles_init s2)\<lparr>particles := Some (Particles_init x s2 p)\<rparr>;
                        s4 = forPlugins has_init call_Plugin_init s3
                    in densityAutoParticles s4))))))"

definition startPlugins :: "Container \<Rightarrow> Container" where
  "startPlugins s =
     fold (\<lambda>p t. if has_startAsync p then called (call_Plugin_startAsync p) t
                 else if has_start p then called (call_Plugin_start p) t
                 else t)
          (plugins s) s"

definition start :: "collaborators \<Rightarrow> Container \<Rightarrow> Container \<times> outcome" where
  "start x s =
     (if started s then (s, Returned)
      else
        (let s1 = s\<lparr>plugins := plugins s @ getAvailablePlugins x s\<rparr>;
             s2 = s1\<lparr>started := True\<rparr>
         in onField (eventListeners s2) s2 (\<lambda>_.
              (let s3 = called call_addListeners s2;
                   s4 = startPlugins s3
               in onField (options s4) s4 (\<lambda>opts.
                    (let s5 = (case particles_shape_type opts of
                                 Multiple tys \<Rightarrow>
                                   s4\<lparr>drawers :=
                                        fold (\<lambda>ty ds. AList.update ty (getShapeDrawer x ty) ds)
                                             tys (drawers s4)\<rparr>
                               | Single ty \<Rightarrow>
                                   s4\<lparr>drawers := AList.update ty (getShapeDrawer x ty) (drawers s4)\<rparr>);
                         s6 = forDrawers drawer_has_init call_Drawer_init s5
                     in andThen (init x s6) (\<lambda>s7. (play None s7, Returned))))))))"

subsection \<open>Sequences of calls, and example states\<close>




text \<open>
  \<open>tracked s\<close>: the requests outstanding are exactly the one whose handle the Container
  holds, if it holds one.
\<close>

definition tracked :: "Container \<Rightarrow> bool" where
  "tracked s =
     (animationFrames s = (case drawAnimationFrame s of None \<Rightarrow> [] | Some handle \<Rightarrow> [handle]))"


text \<open>
  \<open>live s\<close>: no deleted field and not destroyed, as the constructor leaves a Container and
  every method but \<^verbatim>\<open>destroy\<close> keeps it. \<open>gone s\<close>: the fields \<^verbatim>\<open>destroy\<close> deletes are
  deleted.
\<close>

definition live :: "Container \<Rightarrow> bool" where
  "live s =
     (interactivity s \<noteq> None \<and> options s \<noteq> None \<and> retina s \<noteq> None \<and> canvas s \<noteq> None \<and>
      particles s \<noteq> None \<and> bubble s \<noteq> None \<and> repulse s \<noteq> None \<and> drawer s \<noteq> None \<and>
      eventListeners s \<noteq> None \<and> \<not> destroyed s)"

definition gone :: "Container \<Rightarrow> bool" where
  "gone s =
     (interactivity s = None \<and> options s = None \<and> retina s = None \<and> canvas s = None \<and>
      particles s = None \<and> bubble s = None \<and> repulse s = None \<and> drawer s = None \<and>
      eventListeners s = None)"

text \<open>
  An example: a Container as the constructor leaves it (not started, not destroyed,
  paused, page visible, no plugin, no drawer, no request), on a canvas of 1000 by 1000
  with \<open>n\<close> particles, configured number \<open>N\<close> and density area \<open>D\<close>, density enabled,
  no retina.
\<close>

definition example_Container :: "nat \<Rightarrow> rat \<Rightarrow> rat \<Rightarrow> Container" where
  "example_Container n N D =
     \<lparr>container_id = ''tsparticles'',
      interactivity = Some (),
      options = Some \<lparr>particles_number_value = N, particles_number_density_enable = True,
                      particles_number_density_area = D, particles_shape_type = Single ''circle''\<rparr>,
      retina = Some \<lparr>isRetina = False, pixelRatio = 1\<rparr>,
      canvas = Some \<lparr>element = Some \<lparr>width = 1000, height = 1000\<rparr>\<rparr>,
      drawers = [],
      particles = Some \<lparr>count = n, lineLinkedColor = None\<rparr>,
      plugins = [],
      bubble = Some (),
      repulse = Some (),
      lastFrameTime = 0,
      pageHidden = False,
      drawer = Some (),
      started = False,
      destroyed = False,
      paused = True,
      drawAnimationFrame = None,
      eventListeners = Some (),
      animationFrames = [],
      nextHandle = 1,
      performance_now = 16,
      trace = []\<rparr>"

definition example_Plugin :: Plugin where
  "example_Plugin =
     \<lparr>plugin_name = ''polygonMask'', has_init = True, has_start = False,
      has_startAsync = True, has_stop = True, has_pause = True, has_play = True\<rparr>"

definition example_collaborators :: collaborators where
  "example_collaborators =
     \<lparr>getAvailablePlugins = (\<lambda>s. [example_Plugin]),
      getShapeDrawer = (\<lambda>ty. \<lparr>drawer_has_init = False, drawer_has_destroy = True\<rparr>),
      Retina_init = (\<lambda>s r. r),
      Retina_reset = (\<lambda>s r. r),
      Canvas_init = (\<lambda>s c. c),
      Canvas_clear = (\<lambda>s c. c),
      Particles_init = (\<lambda>s p. p)\<rparr>"

text \<open>
  The same Container while it plays, with one plugin and the request of its last
  \<^verbatim>\<open>play()\<close> outstanding; and after \<^verbatim>\<open>destroy()\<close>.
\<close>

definition example_playing :: Container where
  "example_playing =
     (example_Container 250 1 4)\<lparr>plugins := [example_Plugin], started := True, paused := False,
        drawAnimationFrame := Some 1, animationFrames := [1], nextHandle := 2\<rparr>"

definition example_destroyed :: Container where
  "example_destroyed =
     (example_Container 250 1 4)\<lparr>interactivity := None, options := None, retina := None,
        canvas := None, particles := None, bubble := None, repulse := None, drawer := None,
        eventListeners := None, destroyed := True\<rparr>"


section \<open>Properties of PolygonMask.load\<close>

lemma load_scale:
  "scale (load x (Some d) s) = (case data_scale d of Some v \<Rightarrow> v | None \<Rightarrow> scale s)"
  by (simp add: load_def Let_def split: option.splits sum.splits)

lemma load_type:
  "type (load x (Some d) s) = (case data_type d of Some t \<Rightarrow> t | None \<Rightarrow> type s)"
  by (simp add: load_def Let_def split: option.splits sum.splits)

lemma load_url:
  "url (load x (Some d) s) = (case data_url d of Some u \<Rightarrow> Some u | None \<Rightarrow> url s)"
  by (simp add: load_def Let_def split: option.splits sum.splits)

lemma load_enable:
  "enable (load x (Some d) s) =
     (case data_enable d of Some b \<Rightarrow> b | None \<Rightarrow> type (load x (Some d) s) \<noteq> none)"
  by (simp add: load_def Let_def split: option.splits sum.splits)

lemma load_inline:
  "inline (load x (Some d) s) =
     Inline_load
       (Some (case data_inline d of
                Some i \<Rightarrow> i
              | None \<Rightarrow> \<lparr>arrangement_opt = data_inlineArrangement d\<rparr>))
       (inline s)"
  by (simp add: load_def Let_def split: option.splits sum.splits)

text \<open>
  Claim C3, as the code has it. \<^verbatim>\<open>load\<close> with defined data leaves \<^verbatim>\<open>scale\<close>, \<^verbatim>\<open>type\<close> and
  \<^verbatim>\<open>url\<close> as they were when the field of the data is undefined, and overwrites each of the
  four scalar fields with a defined field of the data. \<^verbatim>\<open>enable\<close> is the exception to the
  first half: when \<^verbatim>\<open>data.enable\<close> is undefined it does not keep its value, it becomes
  \<^verbatim>\<open>type !== Type.none\<close> for the type after the load.
\<close>

theorem load_scalar_fields:
  "(data_scale d = None \<longrightarrow> scale (load x (Some d) s) = scale s) \<and>
   (data_type d = None \<longrightarrow> type (load x (Some d) s) = type s) \<and>
   (data_url d = None \<longrightarrow> url (load x (Some d) s) = url s) \<and>
   (data_enable d = None \<longrightarrow> enable (load x (Some d) s) = (type (load x (Some d) s) \<noteq> none)) \<and>
   (\<forall>v. data_scale d = Some v \<longrightarrow> scale (load x (Some d) s) = v) \<and>
   (\<forall>t. data_type d = Some t \<longrightarrow> type (load x (Some d) s) = t) \<and>
   (\<forall>u. data_url d = Some u \<longrightarrow> url (load x (Some d) s) = Some u) \<and>
   (\<forall>b. data_enable d = Some b \<longrightarrow> enable (load x (Some d) s) = b)"
  by (simp add: load_scale load_type load_url load_enable)

theorem load_scalar_fields_witness:
  "data_scale (empty_data\<lparr>data_url := Some ''mask.svg''\<rparr>) = None \<and>
   scale (load unit_loaders (Some (empty_data\<lparr>data_url := Some ''mask.svg''\<rparr>))
            ((PolygonMask_new ''one-per-point'')\<lparr>scale := 3\<rparr>)) = 3 \<and>
   type (load unit_loaders (Some (empty_data\<lparr>data_url := Some ''mask.svg''\<rparr>))
            ((PolygonMask_new ''one-per-point'')\<lparr>scale := 3\<rparr>)) = none \<and>
   url (load unit_loaders (Some (empty_data\<lparr>data_url := Some ''mask.svg''\<rparr>))
            ((PolygonMask_new ''one-per-point'')\<lparr>scale := 3\<rparr>)) = Some ''mask.svg'' \<and>
   \<not> enable (load unit_loaders (Some (empty_data\<lparr>data_url := Some ''mask.svg''\<rparr>))
            ((PolygonMask_new ''one-per-point'')\<lparr>scale := 3\<rparr>))"
  using load_scalar_fields
    [of "empty_data\<lparr>data_url := Some ''mask.svg''\<rparr>" unit_loaders
        "(PolygonMask_new ''one-per-point'')\<lparr>scale := 3\<rparr>"]
  by (simp add: empty_data_def PolygonMask_new_def)

text \<open>
  Claim C3 as stated fails for \<^verbatim>\<open>enable\<close>: after \<^verbatim>\<open>load({enable: true})\<close> on a new object
  the mask is enabled with type \<^verbatim>\<open>none\<close>, and a second \<^verbatim>\<open>load({})\<close>, whose \<^verbatim>\<open>enable\<close> is
  undefined, disables it.
\<close>

theorem load_enable_counterexample:
  "data_enable empty_data = None \<and>
   enable (load unit_loaders (Some (empty_data\<lparr>data_enable := Some True\<rparr>))
             (PolygonMask_new ''one-per-point'')) \<and>
   \<not> enable (load unit_loaders (Some empty_data)
               (load unit_loaders (Some (empty_data\<lparr>data_enable := Some True\<rparr>))
                  (PolygonMask_new ''one-per-point'')))"
  by (simp add: load_def Let_def empty_data_def PolygonMask_new_def unit_loaders_def)

text \<open>
  Claim C6. When the data has no \<^verbatim>\<open>inline\<close> and its deprecated \<^verbatim>\<open>inlineArrangement\<close> is
  \<open>X\<close>, \<^verbatim>\<open>load\<close> gives \<^verbatim>\<open>{arrangement: X}\<close> to the \<^verbatim>\<open>load\<close> of \<^verbatim>\<open>inline\<close>, and
  \<^verbatim>\<open>inline.arrangement\<close> is \<open>X\<close> afterwards.
\<close>

theorem load_inlineArrangement:
  "data_inline d = None \<Longrightarrow> data_inlineArrangement d = Some X \<Longrightarrow>
     arrangement (inline (load x (Some d) s)) = X"
  by (simp add: load_inline Inline_load_def)

theorem load_inlineArrangement_witness:
  "data_inline (empty_data\<lparr>data_inlineArrangement := Some ''X''\<rparr>) = None \<and>
   data_inlineArrangement (empty_data\<lparr>data_inlineArrangement := Some ''X''\<rparr>) = Some ''X'' \<and>
   arrangement (inline (load unit_loaders
     (Some (empty_data\<lparr>data_inlineArrangement := Some ''X''\<rparr>))
     (PolygonMask_new ''one-per-point''))) = ''X''"
proof -
  have a: "data_inline (empty_data\<lparr>data_inlineArrangement := Some ''X''\<rparr>) = None"
    by (simp add: empty_data_def)
  have b: "data_inlineArrangement (empty_data\<lparr>data_inlineArrangement := Some ''X''\<rparr>) = Some ''X''"
    by simp
  from a b load_inlineArrangement [OF a b, of unit_loaders "PolygonMask_new ''one-per-point''"]
  show ?thesis by simp
qed

text \<open>
  Claim C9. When \<^verbatim>\<open>data.enable\<close> is undefined, \<^verbatim>\<open>enable\<close> becomes \<^verbatim>\<open>type !== Type.none\<close>
  for the type after \<^verbatim>\<open>data.type\<close> has been applied: true when the data sets a type other
  than \<^verbatim>\<open>none\<close>, false when the data sets \<^verbatim>\<open>none\<close> or sets no type on an object whose type
  is \<^verbatim>\<open>none\<close>.
\<close>

theorem load_enable_from_type:
  "(data_enable d = None \<longrightarrow>
      type (load x (Some d) s) = (case data_type d of Some t \<Rightarrow> t | None \<Rightarrow> type s) \<and>
      enable (load x (Some d) s) = (type (load x (Some d) s) \<noteq> none)) \<and>
   (data_enable d = None \<and> data_type d = Some t \<and> t \<noteq> none \<longrightarrow> enable (load x (Some d) s)) \<and>
   (data_enable d = None \<and> (data_type d = Some none \<or> data_type d = None \<and> type s = none) \<longrightarrow>
      \<not> enable (load x (Some d) s))"
  by (auto simp add: load_type load_enable)

theorem load_enable_from_type_witness:
  "data_enable (empty_data\<lparr>data_type := Some (other ''inline'')\<rparr>) = None \<and>
   enable (load unit_loaders (Some (empty_data\<lparr>data_type := Some (other ''inline'')\<rparr>))
             (PolygonMask_new ''one-per-point'')) \<and>
   data_enable empty_data = None \<and>
   \<not> enable (load unit_loaders (Some empty_data) (PolygonMask_new ''one-per-point''))"
  using load_enable_from_type
    [of "empty_data\<lparr>data_type := Some (other ''inline'')\<rparr>" unit_loaders
        "PolygonMask_new ''one-per-point''" "other ''inline''"]
    load_enable_from_type [of empty_data unit_loaders "PolygonMask_new ''one-per-point''"]
  by (simp add: empty_data_def PolygonMask_new_def)

section \<open>Properties of the Container\<close>

subsection \<open>The loops over plugins and drawers, and closed forms of play and pause\<close>

lemma fold_called:
  "fold (\<lambda>p t. if has p then called (c p) t else t) ps s =
     s\<lparr>trace := trace s @ map c (filter has ps)\<rparr>"
  by (induction ps arbitrary: s) (simp_all add: called_def)

lemma forPlugins_eq:
  "forPlugins has c s = s\<lparr>trace := trace s @ map c (filter has (plugins s))\<rparr>"
  by (simp add: forPlugins_def fold_called)

lemma fold_called_drawers:
  "fold (\<lambda>(ty, d) t. if has d then called (c ty) t else t) ds s =
     s\<lparr>trace := trace s @ map (\<lambda>(ty, d). c ty) (filter (\<lambda>(ty, d). has d) ds)\<rparr>"
  by (induction ds arbitrary: s) (auto simp add: called_def)

lemma forDrawers_eq:
  "forDrawers has c s =
     s\<lparr>trace := trace s @ map (\<lambda>(ty, d). c ty) (filter (\<lambda>(ty, d). has d) (drawers s))\<rparr>"
  by (simp add: forDrawers_def fold_called_drawers)

lemma fold_startPlugins:
  "fold (\<lambda>p t. if has_startAsync p then called (call_Plugin_startAsync p) t
                 else if has_start p then called (call_Plugin_start p) t
                 else t) ps s =
     s\<lparr>trace := trace s @
          map (\<lambda>p. if has_startAsync p then call_Plugin_startAsync p else call_Plugin_start p)
              (filter (\<lambda>p. has_startAsync p \<or> has_start p) ps)\<rparr>"
  by (induction ps arbitrary: s) (simp_all add: called_def)

lemma play_eq:
  "play force s =
     s\<lparr>paused := False,
       trace := (if paused s \<or> force = Some True
                 then trace s @ map call_Plugin_play (filter has_play (plugins s))
                 else trace s),
       lastFrameTime := (if paused s \<or> force = Some True then performance_now s
                         else lastFrameTime s),
       animationFrames := animationFrames s @ [nextHandle s],
       nextHandle := nextHandle s + 1,
       drawAnimationFrame := Some (nextHandle s)\<rparr>"
  by (simp add: play_def requestFrame_def forPlugins_eq Let_def)

lemma pause_eq:
  "pause s =
     s\<lparr>animationFrames := (case drawAnimationFrame s of
                              Some handle \<Rightarrow> removeAll handle (animationFrames s)
                            | None \<Rightarrow> animationFrames s),
       drawAnimationFrame := None,
       trace := (if paused s then trace s
                 else trace s @ map call_Plugin_pause (filter has_pause (plugins s))),
       paused := (paused s \<or> \<not> pageHidden s)\<rparr>"
  by (cases "drawAnimationFrame s")
     (auto simp add: pause_def cancelAnimation_def forPlugins_eq Let_def)

subsection \<open>play and pause\<close>

text \<open>
  Claim C10. On a Container that is not paused, \<^verbatim>\<open>play(true)\<close> calls \<^verbatim>\<open>play\<close> on every
  plugin that has it, in order, and sets \<^verbatim>\<open>lastFrameTime\<close> to \<^verbatim>\<open>performance.now()\<close>;
  \<^verbatim>\<open>play()\<close> without a true \<^verbatim>\<open>force\<close> calls no plugin and leaves \<^verbatim>\<open>lastFrameTime\<close>. In
  every case \<^verbatim>\<open>play\<close> adds one request to the outstanding ones, holds its handle, and
  leaves \<^verbatim>\<open>paused\<close> false.
\<close>

theorem play_force:
  "(\<not> paused s \<longrightarrow>
      trace (play (Some True) s) = trace s @ map call_Plugin_play (filter has_play (plugins s)) \<and>
      lastFrameTime (play (Some True) s) = performance_now s) \<and>
   (\<not> paused s \<and> force \<noteq> Some True \<longrightarrow>
      trace (play force s) = trace s \<and> lastFrameTime (play force s) = lastFrameTime s) \<and>
   animationFrames (play force s) = animationFrames s @ [nextHandle s] \<and>
   drawAnimationFrame (play force s) = Some (nextHandle s) \<and>
   \<not> paused (play force s)"
  by (simp add: play_eq)

theorem play_force_witness:
  "\<not> paused example_playing \<and>
   trace (play (Some True) example_playing) = [call_Plugin_play example_Plugin] \<and>
   lastFrameTime (play (Some True) example_playing) = 16 \<and>
   trace (play None example_playing) = [] \<and>
   lastFrameTime (play None example_playing) = 0 \<and>
   animationFrames (play None example_playing) = [1, 2]"
  using play_force [of example_playing None]
  by (simp add: example_playing_def example_Container_def example_Plugin_def)

text \<open>
  Claim C7, as the code has it. \<^verbatim>\<open>pause()\<close> cancels the request whose handle the Container
  holds, if it holds one, and forgets the handle. Only when the Container was not paused
  does it call \<^verbatim>\<open>pause\<close> on the plugins that have it, and then it sets \<^verbatim>\<open>paused\<close> unless the
  page is hidden. On a Container whose page is not hidden and whose outstanding requests
  are the one it holds, \<^verbatim>\<open>pause()\<close> followed by \<^verbatim>\<open>play()\<close> gives an animation status of
  true and exactly one outstanding request.
\<close>

theorem pause_then_play:
  "animationFrames (pause s) =
     (case drawAnimationFrame s of
        Some handle \<Rightarrow> removeAll handle (animationFrames s)
      | None \<Rightarrow> animationFrames s) \<and>
   drawAnimationFrame (pause s) = None \<and>
   trace (pause s) =
     (if paused s then trace s
      else trace s @ map call_Plugin_pause (filter has_pause (plugins s))) \<and>
   paused (pause s) = (paused s \<or> \<not> pageHidden s) \<and>
   (\<not> pageHidden s \<and> tracked s \<longrightarrow>
      getAnimationStatus (play force (pause s)) \<and>
      animationFrames (play force (pause s)) = [nextHandle s])"
  by (auto simp add: pause_eq play_eq getAnimationStatus_def tracked_def split: option.splits)

theorem pause_then_play_witness:
  "\<not> pageHidden example_playing \<and> tracked example_playing \<and>
   getAnimationStatus (play None (pause example_playing)) \<and>
   animationFrames (play None (pause example_playing)) = [2] \<and>
   trace (pause example_playing) = [call_Plugin_pause example_Plugin]"
  using pause_then_play [of example_playing None]
  by (simp add: example_playing_def example_Container_def example_Plugin_def tracked_def)

text \<open>
  Claim C7 as stated fails twice. \<^verbatim>\<open>pause()\<close> on a paused Container calls no plugin, though
  one has \<^verbatim>\<open>pause\<close>. And after a \<^verbatim>\<open>play()\<close> on a playing Container, which leaves the
  requests 1 and 2 outstanding, \<^verbatim>\<open>pause()\<close> cancels 2 only, and the \<^verbatim>\<open>play()\<close> that follows
  leaves two requests outstanding, on a page that is not hidden.
\<close>

theorem pause_play_counterexample:
  "paused ((example_Container 0 1 4)\<lparr>plugins := [example_Plugin]\<rparr>) \<and>
   has_pause example_Plugin \<and>
   trace (pause ((example_Container 0 1 4)\<lparr>plugins := [example_Plugin]\<rparr>)) = [] \<and>
   \<not> pageHidden (play None example_playing) \<and>
   animationFrames (play None (pause (play None example_playing))) = [1, 3]"
  by (simp add: pause_eq play_eq example_playing_def example_Container_def example_Plugin_def)








subsection \<open>start, stop and destroy\<close>

text \<open>
  Claim C8. \<^verbatim>\<open>start()\<close> on a started Container and \<^verbatim>\<open>stop()\<close> on a Container that is not
  started return at once: no field changes, nothing is called, nothing is thrown.
\<close>

theorem start_stop_reentrant:
  "(started s \<longrightarrow> start x s = (s, Returned)) \<and> (\<not> started s \<longrightarrow> stop x s = (s, Returned))"
  by (simp add: start_def stop_def)

theorem start_stop_reentrant_witness:
  "started example_playing \<and>
   start example_collaborators example_playing = (example_playing, Returned) \<and>
   \<not> started (example_Container 0 1 4) \<and>
   stop example_collaborators (example_Container 0 1 4) = (example_Container 0 1 4, Returned)"
proof -
  have a: "started example_playing"
    by (simp add: example_playing_def)
  have b: "\<not> started (example_Container 0 1 4)"
    by (simp add: example_Container_def)
  from a b start_stop_reentrant [of example_playing example_collaborators]
    start_stop_reentrant [of "example_Container 0 1 4" example_collaborators]
  show ?thesis by simp
qed

lemma stop_started: "\<not> started (fst (stop x s))"
  by (simp add: stop_def onField_def pause_eq forPlugins_eq called_def Let_def
      split: option.splits)

lemma stop_destroyed: "destroyed (fst (stop x s)) = destroyed s"
  by (simp add: stop_def onField_def pause_eq forPlugins_eq called_def Let_def
      split: option.splits)

lemma stop_live: "live s \<Longrightarrow> snd (stop x s) = Returned \<and> live (fst (stop x s))"
  by (auto simp add: live_def stop_def onField_def pause_eq forPlugins_eq called_def Let_def)

lemma destroy_started: "\<not> started (fst (destroy x s))"
proof (cases "snd (stop x s)")
  case Returned
  with stop_started [of x s] show ?thesis
    by (simp add: destroy_def andThen_def onField_def forDrawers_eq called_def Let_def
        split: option.splits)
next
  case (Threw e)
  with stop_started [of x s] show ?thesis by (simp add: destroy_def andThen_def)
next
  case Unspecified
  with stop_started [of x s] show ?thesis by (simp add: destroy_def andThen_def)
qed

lemma destroy_destroyed: "destroyed s \<Longrightarrow> destroyed (fst (destroy x s))"
proof (cases "snd (stop x s)")
  case Returned
  assume "destroyed s"
  with Returned stop_destroyed [of x s] show ?thesis
    by (simp add: destroy_def andThen_def onField_def forDrawers_eq called_def Let_def
        split: option.splits)
next
  case (Threw e)
  assume "destroyed s"
  with Threw stop_destroyed [of x s] show ?thesis by (simp add: destroy_def andThen_def)
next
  case Unspecified
  assume "destroyed s"
  with Unspecified stop_destroyed [of x s] show ?thesis by (simp add: destroy_def andThen_def)
qed

lemma destroy_live:
  assumes "live s"
  shows "snd (destroy x s) = Returned \<and> destroyed (fst (destroy x s)) \<and> gone (fst (destroy x s))
         \<and> drawers (fst (destroy x s)) = []"
proof -
  from stop_live [OF assms, of x]
  have r: "snd (stop x s) = Returned" and l: "live (fst (stop x s))" by simp_all
  from l obtain rt cv where "retina (fst (stop x s)) = Some rt" "canvas (fst (stop x s)) = Some cv"
    by (auto simp add: live_def)
  with r show ?thesis
    by (simp add: destroy_def andThen_def onField_def forDrawers_eq called_def Let_def gone_def)
qed

lemma destroy_gone: "gone s \<Longrightarrow> \<not> started s \<Longrightarrow> destroy x s = (s, Threw TypeError)"
  by (simp add: gone_def destroy_def stop_def andThen_def onField_def)

lemma start_gone:
  "gone s \<Longrightarrow> \<not> started s \<Longrightarrow>
     start x s = (s\<lparr>plugins := plugins s @ getAvailablePlugins x s, started := True\<rparr>, Threw TypeError)"
  by (simp add: gone_def start_def onField_def Let_def)

text \<open>
  Claim C1, as the code has it. \<^verbatim>\<open>destroy()\<close> on a live Container returns, with
  \<^verbatim>\<open>destroyed\<close> true and the subordinate fields deleted. After any \<^verbatim>\<open>destroy()\<close>, returned
  or thrown, \<^verbatim>\<open>started\<close> is false, and \<^verbatim>\<open>destroyed\<close> stays true once it is. A second
  \<^verbatim>\<open>destroy()\<close> is not a silent no-op: it changes nothing, but it throws a \<^verbatim>\<open>TypeError\<close> at
  \<^verbatim>\<open>this.retina.reset()\<close>, the retina being deleted. A \<^verbatim>\<open>start()\<close> after \<^verbatim>\<open>destroy()\<close> throws
  a \<^verbatim>\<open>TypeError\<close> at \<^verbatim>\<open>this.eventListeners.addListeners()\<close>: it never reaches \<^verbatim>\<open>init()\<close> or
  \<^verbatim>\<open>play()\<close>, requests no frame, calls nothing and leaves \<^verbatim>\<open>paused\<close> as it was.
\<close>

theorem destroy_terminal:
  "(live s \<longrightarrow>
      snd (destroy x s) = Returned \<and> destroyed (fst (destroy x s)) \<and> gone (fst (destroy x s))) \<and>
   \<not> started (fst (destroy x s)) \<and>
   (destroyed s \<longrightarrow> destroyed (fst (destroy x s))) \<and>
   (gone s \<and> \<not> started s \<longrightarrow>
      destroy x s = (s, Threw TypeError) \<and>
      snd (start x s) = Threw TypeError \<and>
      paused (fst (start x s)) = paused s \<and>
      animationFrames (fst (start x s)) = animationFrames s \<and>
      drawAnimationFrame (fst (start x s)) = drawAnimationFrame s \<and>
      trace (fst (start x s)) = trace s)"
  using destroy_live [of s x] destroy_started [of x s] destroy_destroyed [of s x]
    destroy_gone [of s x] start_gone [of s x]
  by simp

text \<open>
  Claim C1 as stated fails: on a playing Container the first \<^verbatim>\<open>destroy()\<close> returns and the
  second throws.
\<close>

theorem second_destroy_counterexample:
  "snd (destroy example_collaborators example_playing) = Returned \<and>
   snd (destroy example_collaborators (fst (destroy example_collaborators example_playing)))
     = Threw TypeError"
  by (simp add: destroy_def stop_def andThen_def onField_def pause_eq forPlugins_eq
      forDrawers_eq called_def Let_def example_playing_def example_Container_def
      example_collaborators_def example_Plugin_def Particles_clear_def)

theorem destroy_terminal_witness:
  "live example_playing \<and> gone example_destroyed \<and> \<not> started example_destroyed \<and>
   destroyed example_destroyed \<and>
   snd (destroy example_collaborators example_playing) = Returned \<and>
   destroyed (fst (destroy example_collaborators example_playing)) \<and>
   \<not> started (fst (destroy example_collaborators example_playing)) \<and>
   destroy example_collaborators example_destroyed = (example_destroyed, Threw TypeError) \<and>
   snd (start example_collaborators example_destroyed) = Threw TypeError \<and>
   animationFrames (fst (start example_collaborators example_destroyed)) = []"
proof -
  have a: "live example_playing"
    by (simp add: live_def example_playing_def example_Container_def)
  have b: "gone example_destroyed" "\<not> started example_destroyed" "destroyed example_destroyed"
    "animationFrames example_destroyed = []"
    by (simp_all add: gone_def example_destroyed_def example_Container_def)
  from a b destroy_terminal [of example_playing example_collaborators]
    destroy_terminal [of example_destroyed example_collaborators]
  show ?thesis by simp
qed

subsection \<open>densityAutoParticles\<close>









subsection \<open>The count after densityAutoParticles\<close>











end
